theory Spec2Isabelle
  imports Main "HOL-Library.Multiset" "HOL-Library.Word"
begin

section \<open>Data model\<close>

text \<open>
  A Python \<open>str\<close> is a sequence of Unicode code points and a \<open>bytes\<close> object a sequence
  of octets. String constants of the source are written \<open>lit ''...''\<close>.
\<close>

type_synonym pystr = "nat list"
type_synonym pybytes = "8 word list"

abbreviation lit :: "string \<Rightarrow> pystr" where
  "lit s \<equiv> map of_char s"

text \<open>
  A Python \<open>float\<close> (an IEEE double): sign, magnitude \<open>m * 2 ^ e\<close>, or one of the
  special values.
\<close>

datatype pyfloat = Finite bool nat int | Infinity bool | NaN

text \<open>
  The values \<open>json.loads\<close> returns. An object is a \<open>dict\<close> with \<open>str\<close> keys, kept as an
  association list in insertion order.
\<close>

datatype json =
    JNull
  | JBool bool
  | JInt int
  | JFloat pyfloat
  | JStr pystr
  | JArray "json list"
  | JObject "(pystr \<times> json) list"

text \<open>
  Exceptions. \<open>HTTPException\<close> is the one the source raises itself; \<open>AttributeError\<close>,
  \<open>TypeError\<close>, \<open>ValueError\<close> and \<open>OverflowError\<close> are raised by the built-ins the source
  calls on a parsed value (the value is kept); \<open>External\<close> is an exception of a library
  (PDF, DOCX, JSON, generation client), carrying its message.
\<close>

datatype exn =
    HTTPException nat pystr
  | AttributeError json
  | TypeError json
  | ValueError json
  | OverflowError json
  | External pystr

text \<open>The dictionary appended to \<open>results\<close> for one resume (\<open>main.py\<close>, lines 215-220).\<close>

record ScoreRecord =
  filename :: "pystr option"
  score :: int
  missing_skills :: "json list"
  remarks :: json

text \<open>The dictionary \<open>match_resumes\<close> returns (line 225).\<close>

record MatchReport =
  matches :: "ScoreRecord list"
  best_candidate :: "ScoreRecord option"

text \<open>An uploaded file: \<open>up.filename\<close> (possibly \<open>None\<close>) and the bytes \<open>up.file.read()\<close> returns.\<close>

record UploadFile =
  up_filename :: "pystr option"
  file_content :: pybytes

text \<open>The form fields of a \<open>/match_resumes\<close> request (lines 168-173).\<close>

record request =
  jd_mode :: pystr
  jd_file :: "UploadFile option"
  jd_text :: "pystr option"
  resumes :: "UploadFile list"

section \<open>Collaborators outside the repository\<close>

text \<open>The \<open>config\<close> dictionary passed to the generation client (lines 77-82).\<close>

record gen_config =
  temperature :: pyfloat
  top_p :: pyfloat
  top_k :: nat
  max_output_tokens :: nat

text \<open>
  The libraries and interpreter built-ins the source calls, whose code is not part of the
  repository. Every function of the model takes them as the parameter \<open>env\<close>:
  \<^item> \<open>pdf_page_texts\<close>: \<open>pdfplumber.open\<close> on the bytes and \<open>extract_text()\<close> of every page;
  \<^item> \<open>docx_paragraph_texts\<close>: \<open>docx.Document\<close> on the bytes and the text of every paragraph;
  \<^item> \<open>generate_content\<close>: \<open>client.models.generate_content(model, contents, config).text\<close>;
  \<^item> \<open>json_loads\<close>: \<open>json.loads\<close>;
  \<^item> \<open>int_of_str\<close>: \<open>int(s)\<close> for a \<open>str\<close>;
  \<^item> \<open>repr_of\<close>: \<open>str(v)\<close> for a number, list or dictionary;
  \<^item> \<open>str_lower\<close>: \<open>str.lower\<close>;
  \<^item> \<open>exc_str\<close>: \<open>str(e)\<close> for an exception that is not a library's.
\<close>

record env =
  pdf_page_texts :: "pybytes \<Rightarrow> exn + pystr option list"
  docx_paragraph_texts :: "pybytes \<Rightarrow> exn + pystr list"
  generate_content :: "pystr \<Rightarrow> pystr \<Rightarrow> gen_config \<Rightarrow> exn + pystr option"
  json_loads :: "pystr \<Rightarrow> exn + json"
  int_of_str :: "pystr \<Rightarrow> exn + int"
  repr_of :: "json \<Rightarrow> exn + pystr"
  str_lower :: "pystr \<Rightarrow> pystr"
  exc_str :: "exn \<Rightarrow> pystr"

section \<open>Built-in operations the source uses\<close>

text \<open>Sequencing of steps that may raise: the first exception ends the block.\<close>

definition then_do :: "exn + 'a \<Rightarrow> ('a \<Rightarrow> exn + 'b) \<Rightarrow> exn + 'b" where
  "then_do r f = (case r of Inl e \<Rightarrow> Inl e | Inr x \<Rightarrow> f x)"

text \<open>\<open>str(e)\<close>, as the f-strings of lines 86 and 213 format an exception.\<close>

definition str_of_exc :: "env \<Rightarrow> exn \<Rightarrow> pystr" where
  "str_of_exc env e = (case e of External msg \<Rightarrow> msg | _ \<Rightarrow> exc_str env e)"

text \<open>The code points \<open>str.strip()\<close> removes (those with \<open>str.isspace()\<close>).\<close>

definition is_space :: "nat \<Rightarrow> bool" where
  "is_space c =
     ((9 \<le> c \<and> c \<le> 13) \<or> (28 \<le> c \<and> c \<le> 32) \<or> c = 133 \<or> c = 160 \<or> c = 5760
      \<or> (8192 \<le> c \<and> c \<le> 8202) \<or> c = 8232 \<or> c = 8233 \<or> c = 8239 \<or> c = 8287
      \<or> c = 12288)"

definition strip :: "pystr \<Rightarrow> pystr" where
  "strip s = rev (dropWhile is_space (rev (dropWhile is_space s)))"

definition endswith :: "pystr \<Rightarrow> pystr \<Rightarrow> bool" where
  "endswith s suf = (length suf \<le> length s \<and> drop (length s - length suf) s = suf)"

fun join :: "pystr \<Rightarrow> pystr list \<Rightarrow> pystr" where
  "join sep [] = []"
| "join sep [x] = x"
| "join sep (x # y # ys) = x @ sep @ join sep (y # ys)"

text \<open>\<open>s.rsplit(sep, 1)[0]\<close> for a one-character separator.\<close>

definition rsplit_head :: "nat \<Rightarrow> pystr \<Rightarrow> pystr" where
  "rsplit_head sep s =
     (if sep \<in> set s then rev (tl (dropWhile (\<lambda>c. c \<noteq> sep) (rev s))) else s)"

text \<open>Truth value of a parsed value, as \<open>x or ""\<close> tests it.\<close>

fun truthy :: "json \<Rightarrow> bool" where
  "truthy JNull = False"
| "truthy (JBool b) = b"
| "truthy (JInt i) = (i \<noteq> 0)"
| "truthy (JFloat (Finite s m e)) = (m \<noteq> 0)"
| "truthy (JFloat (Infinity s)) = True"
| "truthy (JFloat NaN) = True"
| "truthy (JStr s) = (s \<noteq> [])"
| "truthy (JArray xs) = (xs \<noteq> [])"
| "truthy (JObject kvs) = (kvs \<noteq> [])"

text \<open>\<open>int(x)\<close> of a finite float truncates towards zero.\<close>

definition float_trunc :: "bool \<Rightarrow> nat \<Rightarrow> int \<Rightarrow> int" where
  "float_trunc neg m e =
     (let mag = (if 0 \<le> e then int m * 2 ^ nat e else int m div 2 ^ nat (- e))
      in if neg then - mag else mag)"

text \<open>\<open>int(v)\<close> for a parsed value.\<close>

fun py_int :: "env \<Rightarrow> json \<Rightarrow> exn + int" where
  "py_int env (JInt i) = Inr i"
| "py_int env (JBool b) = Inr (if b then 1 else 0)"
| "py_int env (JFloat (Finite s m e)) = Inr (float_trunc s m e)"
| "py_int env (JFloat (Infinity s)) = Inl (OverflowError (JFloat (Infinity s)))"
| "py_int env (JFloat NaN) = Inl (ValueError (JFloat NaN))"
| "py_int env (JStr s) = int_of_str env s"
| "py_int env JNull = Inl (TypeError JNull)"
| "py_int env (JArray xs) = Inl (TypeError (JArray xs))"
| "py_int env (JObject kvs) = Inl (TypeError (JObject kvs))"

text \<open>\<open>str(v)\<close> for a parsed value.\<close>

fun py_str :: "env \<Rightarrow> json \<Rightarrow> exn + pystr" where
  "py_str env (JStr s) = Inr s"
| "py_str env JNull = Inr (lit ''None'')"
| "py_str env (JBool b) = Inr (if b then lit ''True'' else lit ''False'')"
| "py_str env (JInt i) = repr_of env (JInt i)"
| "py_str env (JFloat f) = repr_of env (JFloat f)"
| "py_str env (JArray xs) = repr_of env (JArray xs)"
| "py_str env (JObject kvs) = repr_of env (JObject kvs)"

text \<open>
  \<open>parsed.get(key, default)\<close>: only a dictionary has the method; on any other parsed
  value the attribute lookup raises \<open>AttributeError\<close>.
\<close>

definition dict_get :: "json \<Rightarrow> pystr \<Rightarrow> json \<Rightarrow> exn + json" where
  "dict_get parsed key dflt =
     (case parsed of
        JObject kvs \<Rightarrow> Inr (case map_of kvs key of None \<Rightarrow> dflt | Some v \<Rightarrow> v)
      | _ \<Rightarrow> Inl (AttributeError parsed))"

subsection \<open>\<open>bytes.decode("utf-8", errors="ignore")\<close>\<close>

definition is_cont :: "8 word \<Rightarrow> bool" where
  "is_cont b = (0x80 \<le> b \<and> b \<le> 0xBF)"

definition cont_bits :: "8 word \<Rightarrow> nat" where
  "cont_bits b = unat b - 0x80"

text \<open>The values the second byte of a well-formed three- or four-byte sequence may take.\<close>

definition second_ok :: "8 word \<Rightarrow> 8 word \<Rightarrow> bool" where
  "second_ok b b1 =
     (if b = 0xE0 then 0xA0 \<le> b1 \<and> b1 \<le> 0xBF
      else if b = 0xED then 0x80 \<le> b1 \<and> b1 \<le> 0x9F
      else if b = 0xF0 then 0x90 \<le> b1 \<and> b1 \<le> 0xBF
      else if b = 0xF4 then 0x80 \<le> b1 \<and> b1 \<le> 0x8F
      else is_cont b1)"

text \<open>
  The well-formed sequence that starts with the byte \<open>b\<close> followed by \<open>rest\<close>, if there
  is one: its code point and the number of bytes of \<open>rest\<close> it takes.
\<close>

definition decode_one :: "8 word \<Rightarrow> pybytes \<Rightarrow> (nat \<times> nat) option" where
  "decode_one b rest =
     (if b < 0x80 then Some (unat b, 0)
      else if 0xC2 \<le> b \<and> b \<le> 0xDF then
        (case rest of
           b1 # _ \<Rightarrow>
             if is_cont b1 then Some ((unat b - 0xC0) * 64 + cont_bits b1, 1) else None
         | _ \<Rightarrow> None)
      else if 0xE0 \<le> b \<and> b \<le> 0xEF then
        (case rest of
           b1 # b2 # _ \<Rightarrow>
             if second_ok b b1 \<and> is_cont b2
             then Some ((unat b - 0xE0) * 4096 + cont_bits b1 * 64 + cont_bits b2, 2)
             else None
         | _ \<Rightarrow> None)
      else if 0xF0 \<le> b \<and> b \<le> 0xF4 then
        (case rest of
           b1 # b2 # b3 # _ \<Rightarrow>
             if second_ok b b1 \<and> is_cont b2 \<and> is_cont b3
             then Some ((unat b - 0xF0) * 262144 + cont_bits b1 * 4096
                        + cont_bits b2 * 64 + cont_bits b3, 3)
             else None
         | _ \<Rightarrow> None)
      else None)"

text \<open>
  With \<open>errors="ignore"\<close> a byte that does not start a well-formed sequence is left out
  and decoding goes on after it; nothing is put in its place and nothing is raised.
\<close>

fun decode_utf8_ignore :: "pybytes \<Rightarrow> pystr" where
  "decode_utf8_ignore [] = []"
| "decode_utf8_ignore (b # rest) =
     (case decode_one b rest of
        Some (cp, k) \<Rightarrow> cp # decode_utf8_ignore (drop k rest)
      | None \<Rightarrow> decode_utf8_ignore rest)"

section \<open>Text extraction (\<open>main.py\<close>, lines 45-62)\<close>

text \<open>
  \<open>_read_upload_text\<close>. The \<open>finally\<close> block only closes the file and swallows what
  closing raises, so it changes neither the text returned nor the exception raised.
\<close>

definition read_upload_text :: "env \<Rightarrow> UploadFile \<Rightarrow> exn + pystr" where
  "read_upload_text env up =
     (let content = file_content up;
          fname = str_lower env (case up_filename up of None \<Rightarrow> [] | Some n \<Rightarrow> n)
      in if endswith fname (lit ''.pdf'') then
           then_do (pdf_page_texts env content)
             (\<lambda>pages. Inr (join (lit ''\<newline>'')
                (map (\<lambda>t. case t of None \<Rightarrow> [] | Some s \<Rightarrow> s) pages)))
         else if endswith fname (lit ''.docx'') \<or> endswith fname (lit ''.doc'') then
           then_do (docx_paragraph_texts env content)
             (\<lambda>paragraphs. Inr (join (lit ''\<newline>'') paragraphs))
         else Inr (decode_utf8_ignore content))"

section \<open>Prompt and generation call (\<open>main.py\<close>, lines 64-86 and 106-133)\<close>

text \<open>\<open>_shorten\<close>.\<close>

definition shorten :: "pystr \<Rightarrow> nat \<Rightarrow> pystr" where
  "shorten text max_chars =
     (if length text \<le> max_chars then text
      else rsplit_head 10 (take max_chars text))"

definition GEMINI_MODEL :: pystr where
  "GEMINI_MODEL = lit ''gemini-2.0-flash''"

text \<open>
  The float constants the scoring call passes: the temperature \<open>0.0\<close> (line 195) and
  \<open>top_p = 0.95\<close> (line 79), as doubles.
\<close>

definition float_0_0 :: pyfloat where
  "float_0_0 = Finite False 0 0"

definition float_0_95 :: pyfloat where
  "float_0_95 = Finite False 8556839292003942 (- 53)"

text \<open>
  \<open>_gemini_generate\<close>: whatever the client raises is raised again as an
  \<open>HTTPException\<close> with status 500; a missing text counts as empty; the text is stripped.
\<close>

definition gemini_generate :: "env \<Rightarrow> pystr \<Rightarrow> nat \<Rightarrow> pyfloat \<Rightarrow> exn + pystr" where
  "gemini_generate env prompt max_tokens temp =
     (case generate_content env GEMINI_MODEL prompt
             \<lparr>temperature = temp, top_p = float_0_95, top_k = 40,
              max_output_tokens = max_tokens\<rparr> of
        Inl e \<Rightarrow> Inl (HTTPException 500 (lit ''Gemini API error: '' @ str_of_exc env e))
      | Inr text \<Rightarrow> Inr (strip (case text of None \<Rightarrow> [] | Some t \<Rightarrow> t)))"

text \<open>\<open>_scoring_prompt\<close>: the template around the shortened texts.\<close>

definition prompt_head :: pystr where
  \<open>prompt_head =
     lit ''\<newline>''
     @ lit ''You are an expert technical recruiter. Given the Job Description (JD) ''
     @ lit ''and a candidate's resume text, evaluate how well the candidate fits the ''
     @ lit ''JD.\<newline>''
     @ lit ''\<newline>''
     @ lit ''Instructions:\<newline>''
     @ lit ''- Read the JD and resume.\<newline>''
     @ lit ''- Produce a JSON object ONLY (no extra commentary) with these keys:\<newline>''
     @ lit ''  - "score": integer between 0 and 100 representing fit (100 = perfect ''
     @ lit ''fit).\<newline>''
     @ lit ''  - "missing_skills": an array of strings listing important JD ''
     @ lit ''skills/requirements not found in the resume (max 20).\<newline>''
     @ lit ''  - "remarks": a short string (1-2 sentences) summarizing ''
     @ lit ''strengths/weaknesses and suggested fit level.\<newline>''
     @ lit ''\<newline>''
     @ lit ''Evaluation guidance:\<newline>''
     @ lit ''- Consider technical skills, experience level, role fit, and relevant ''
     @ lit ''keywords.\<newline>''
     @ lit ''- Be conservative: if something is not clearly present in the resume, ''
     @ lit ''consider it missing.\<newline>''
     @ lit ''- Use the JD to determine "must-have" vs "nice-to-have".\<newline>''
     @ lit ''\<newline>''
     @ lit ''Provide only valid JSON, example:\<newline>''
     @ lit ''{"score": 78, "missing_skills": ["aws sagemaker", "production ''
     @ lit ''monitoring"], "remarks": "Good ML background but lacks specific AWS ''
     @ lit ''MLOps experience."}\<newline>''
     @ lit ''\<newline>''
     @ lit ''JD:\<newline>''
     @ lit ''"""''\<close>

definition prompt_mid :: pystr where
  \<open>prompt_mid =
     lit ''"""\<newline>''
     @ lit ''\<newline>''
     @ lit ''Resume:\<newline>''
     @ lit ''"""''\<close>

definition prompt_tail :: pystr where
  \<open>prompt_tail =
     lit ''"""\<newline>''\<close>

definition scoring_prompt :: "pystr \<Rightarrow> pystr \<Rightarrow> pystr" where
  "scoring_prompt jd_txt resume_text =
     (let jd_trim = shorten jd_txt 2500;
          res_trim = shorten resume_text 2500
      in prompt_head @ jd_trim @ prompt_mid @ res_trim @ prompt_tail)"

section \<open>Parsing the model's response (\<open>main.py\<close>, lines 194-220)\<close>

text \<open>
  \<open>re.search(r"(\{.*\})", resp_text, re.S)\<close>. With \<open>re.S\<close> the dot matches every
  character. At a start position the pattern needs an opening brace; the greedy \<open>.*\<close>
  then takes the rest of the text and gives characters back until a closing brace
  follows, so the match ends at the last closing brace after it. The search tries the
  start positions from left to right and returns the group of the first match.
\<close>

definition lbrace :: nat where
  "lbrace = of_char CHR ''{''"

definition rbrace :: nat where
  "rbrace = of_char CHR ''}''"

definition greedy_to_close :: "pystr \<Rightarrow> pystr option" where
  "greedy_to_close s =
     (case dropWhile (\<lambda>c. c \<noteq> rbrace) (rev s) of
        [] \<Rightarrow> None
      | c # cs \<Rightarrow> Some (rev (c # cs)))"

fun re_search :: "pystr \<Rightarrow> pystr option" where
  "re_search [] = None"
| "re_search (c # cs) =
     (if c = lbrace then
        (case greedy_to_close cs of
           Some m \<Rightarrow> Some (c # m)
         | None \<Rightarrow> re_search cs)
      else re_search cs)"

text \<open>Lines 198-202: the located substring is parsed, or else the whole text.\<close>

definition parse_response :: "env \<Rightarrow> pystr \<Rightarrow> exn + json" where
  "parse_response env resp_text =
     (case re_search resp_text of
        None \<Rightarrow> json_loads env resp_text
      | Some g \<Rightarrow> json_loads env g)"

text \<open>
  Lines 203-208: the three fields, in the order the source evaluates them. A parsed list
  (\<open>isinstance(missing_skills, list)\<close>) is kept as it is; any other value is replaced by
  the one-element list of its \<open>str\<close>.
\<close>

definition extract_fields :: "env \<Rightarrow> json \<Rightarrow> exn + (int \<times> json list \<times> json)" where
  "extract_fields env parsed =
     then_do (dict_get parsed (lit ''score'') (JInt 0)) (\<lambda>score_value.
     then_do (py_int env score_value) (\<lambda>score.
     then_do (dict_get parsed (lit ''missing_skills'') (JArray [])) (\<lambda>missing_skills.
     then_do (dict_get parsed (lit ''remarks'') (JStr [])) (\<lambda>remarks_value.
       let remarks = (if truthy remarks_value then remarks_value else JStr [])
       in (case missing_skills of
             JArray xs \<Rightarrow> Inr (score, xs, remarks)
           | _ \<Rightarrow> then_do (py_str env missing_skills)
                    (\<lambda>s. Inr (score, [JStr s], remarks)))))))"

text \<open>Lines 198-208: what the \<open>try\<close> block does with the text the model returned.\<close>

definition parse_fields :: "env \<Rightarrow> pystr \<Rightarrow> exn + (int \<times> json list \<times> json)" where
  "parse_fields env resp_text =
     then_do (parse_response env resp_text) (\<lambda>parsed. extract_fields env parsed)"

text \<open>
  A property of \<open>json.loads\<close> that the parser relies on: a text that parses to an object
  holds an opening brace with a closing brace after it, so the search of line 198 finds a
  match in it.
\<close>

definition objects_need_braces :: "env \<Rightarrow> bool" where
  "objects_need_braces env =
     (\<forall>s kvs. json_loads env s = Inr (JObject kvs) \<longrightarrow> re_search s \<noteq> None)"

text \<open>The body of the \<open>try\<close> block, lines 195-208.\<close>

definition try_block :: "env \<Rightarrow> pystr \<Rightarrow> exn + (int \<times> json list \<times> json)" where
  "try_block env prompt =
     then_do (gemini_generate env prompt 400 float_0_0) (\<lambda>resp_text.
       parse_fields env resp_text)"

text \<open>The values the \<open>except\<close> branch assigns (lines 211-213), as a record.\<close>

definition fallback_record :: "env \<Rightarrow> pystr option \<Rightarrow> exn \<Rightarrow> ScoreRecord" where
  "fallback_record env fname e =
     \<lparr>filename = fname, score = 0, missing_skills = [],
      remarks = JStr (lit ''Scoring failed: '' @ str_of_exc env e)\<rparr>"

text \<open>
  Lines 209-220: \<open>except Exception\<close> catches every exception the \<open>try\<close> block can
  raise, and one dictionary is built from the three variables either way.
\<close>

definition record_of :: "env \<Rightarrow> pystr option \<Rightarrow> exn + (int \<times> json list \<times> json) \<Rightarrow> ScoreRecord"
where
  "record_of env fname outcome =
     (case outcome of
        Inr (sc, ms, rm) \<Rightarrow>
          \<lparr>filename = fname, score = sc, missing_skills = ms, remarks = rm\<rparr>
      | Inl e \<Rightarrow> fallback_record env fname e)"

text \<open>Lines 193-220 for one resume whose text has been read.\<close>

definition score_resume :: "env \<Rightarrow> pystr \<Rightarrow> UploadFile \<Rightarrow> pystr \<Rightarrow> ScoreRecord" where
  "score_resume env jd_raw up res_text =
     (let prompt = scoring_prompt jd_raw res_text
      in record_of env (up_filename up) (try_block env prompt))"

section \<open>Candidate ranking (\<open>main.py\<close>, lines 223-225)\<close>

text \<open>
  \<open>list.sort(key=..., reverse=True)\<close>: the list is reversed, sorted by a stable ascending
  sort, and reversed again, which is how a reverse sort keeps equal keys in their original
  order. The result of a stable sort is determined by the keys, so insertion sort stands
  for the interpreter's merge sort.
\<close>

definition sort_reverse :: "('a \<Rightarrow> int) \<Rightarrow> 'a list \<Rightarrow> 'a list" where
  "sort_reverse key xs = rev (sort_key key (rev xs))"

text \<open>
  \<open>results.sort(key=lambda x: x["score"], reverse=True)\<close>,
  \<open>best = results[0] if results else None\<close>,
  \<open>return {"matches": results, "best_candidate": best}\<close>.
\<close>

definition rank :: "ScoreRecord list \<Rightarrow> MatchReport" where
  "rank results =
     (let results = sort_reverse score results;
          best = (case results of [] \<Rightarrow> None | r # _ \<Rightarrow> Some r)
      in \<lparr>matches = results, best_candidate = best\<rparr>)"

section \<open>The endpoint (\<open>main.py\<close>, lines 167-225)\<close>

text \<open>
  The loop of lines 190-220. The text of a resume is read outside the \<open>try\<close> block
  (line 192), so an exception of \<open>_read_upload_text\<close> leaves the loop and the function.
\<close>

fun score_all :: "env \<Rightarrow> pystr \<Rightarrow> UploadFile list \<Rightarrow> ScoreRecord list \<Rightarrow> exn + ScoreRecord list"
where
  "score_all env jd_raw [] results = Inr results"
| "score_all env jd_raw (up # ups) results =
     (case read_upload_text env up of
        Inl e \<Rightarrow> Inl e
      | Inr res_text \<Rightarrow>
          score_all env jd_raw ups (results @ [score_resume env jd_raw up res_text]))"

definition detail_jd_mode :: pystr where
  \<open>detail_jd_mode = lit ''jd_mode must be 'file' or 'text'' @ [39]\<close>

definition detail_jd_file :: pystr where
  \<open>detail_jd_file = lit ''JD file required when jd_mode='file'' @ [39]\<close>

definition detail_jd_text :: pystr where
  \<open>detail_jd_text = lit ''jd_text is required when jd_mode='text'' @ [39]\<close>

text \<open>Lines 174-183: the job description text, or the exception raised on the way.\<close>

definition resolve_jd :: "env \<Rightarrow> request \<Rightarrow> exn + pystr" where
  "resolve_jd env req =
     (if jd_mode req \<noteq> lit ''file'' \<and> jd_mode req \<noteq> lit ''text'' then
        Inl (HTTPException 400 detail_jd_mode)
      else if jd_mode req = lit ''file'' then
        (case jd_file req of
           None \<Rightarrow> Inl (HTTPException 400 detail_jd_file)
         | Some f \<Rightarrow> read_upload_text env f)
      else
        (case jd_text req of
           None \<Rightarrow> Inl (HTTPException 400 detail_jd_text)
         | Some t \<Rightarrow>
             if t = [] \<or> strip t = [] then Inl (HTTPException 400 detail_jd_text)
             else Inr t))"

text \<open>\<open>match_resumes\<close>.\<close>

definition match_resumes :: "env \<Rightarrow> request \<Rightarrow> exn + MatchReport" where
  "match_resumes env req =
     then_do (resolve_jd env req) (\<lambda>jd_raw.
       if resumes req = [] then
         Inl (HTTPException 400 (lit ''At least one resume must be uploaded''))
       else if length (resumes req) > 20 then
         Inl (HTTPException 400 (lit ''Maximum 20 resumes allowed''))
       else
         then_do (score_all env jd_raw (resumes req) []) (\<lambda>results.
           Inr (rank results)))"

section \<open>A scripted environment for the examples\<close>

text \<open>
  Test doubles for the collaborators, used where a property is shown on a concrete input.
  The libraries are scripted: the PDF and DOCX readers reject every upload, \<open>json.loads\<close>
  knows the texts of the examples, and the generation call is the parameter \<open>reply\<close>.
  The built-ins answer as the interpreter does on the values of the examples.
\<close>

function digits_of :: "nat \<Rightarrow> pystr" where
  "digits_of n = (if n < 10 then [48 + n] else digits_of (n div 10) @ [48 + n mod 10])"
  by pat_completeness auto
termination
  by (relation "measure id") auto

declare digits_of.simps [simp del]

definition str_of_int :: "int \<Rightarrow> pystr" where
  "str_of_int i = (if i < 0 then lit ''-'' @ digits_of (nat (- i)) else digits_of (nat i))"

definition type_name :: "json \<Rightarrow> pystr" where
  "type_name v =
     (case v of
        JNull \<Rightarrow> lit ''NoneType''
      | JBool b \<Rightarrow> lit ''bool''
      | JInt i \<Rightarrow> lit ''int''
      | JFloat f \<Rightarrow> lit ''float''
      | JStr s \<Rightarrow> lit ''str''
      | JArray xs \<Rightarrow> lit ''list''
      | JObject kvs \<Rightarrow> lit ''dict'')"

definition fake_exc_str :: "exn \<Rightarrow> pystr" where
  \<open>fake_exc_str e =
     (case e of
        HTTPException status detail \<Rightarrow> digits_of status @ lit '': '' @ detail
      | AttributeError v \<Rightarrow>
          [39] @ type_name v @ [39] @ lit '' object has no attribute 'get'' @ [39]
      | TypeError v \<Rightarrow>
          lit ''int() argument must be a string, a bytes-like object or a real number, ''
          @ lit ''not '' @ [39] @ type_name v @ [39]
      | ValueError v \<Rightarrow>
          (case v of
             JStr s \<Rightarrow> lit ''invalid literal for int() with base 10: '' @ [39] @ s @ [39]
           | _ \<Rightarrow> lit ''cannot convert float NaN to integer'')
      | OverflowError v \<Rightarrow> lit ''cannot convert float infinity to integer''
      | External msg \<Rightarrow> msg)\<close>

definition ascii_lower :: "nat \<Rightarrow> nat" where
  "ascii_lower c = (if 65 \<le> c \<and> c \<le> 90 then c + 32 else c)"

definition fake_int_of_str :: "pystr \<Rightarrow> exn + int" where
  "fake_int_of_str s =
     (if s \<noteq> [] \<and> list_all (\<lambda>c. 48 \<le> c \<and> c \<le> 57) s
      then Inr (foldl (\<lambda>a c. 10 * a + int (c - 48)) 0 s)
      else Inl (ValueError (JStr s)))"

definition fake_repr :: "json \<Rightarrow> exn + pystr" where
  "fake_repr v =
     (case v of
        JInt i \<Rightarrow> Inr (str_of_int i)
      | _ \<Rightarrow> Inl (External (lit ''not scripted'')))"

definition fake_loads :: "pystr \<Rightarrow> exn + json" where
  \<open>fake_loads s =
     (if s = lit ''{"score": 85, "missing_skills": "AWS", "remarks": "Strong fit"}'' then
        Inr (JObject [(lit ''score'', JInt 85),
                      (lit ''missing_skills'', JStr (lit ''AWS'')),
                      (lit ''remarks'', JStr (lit ''Strong fit''))])
      else if s = lit ''{"score": 1}'' then Inr (JObject [(lit ''score'', JInt 1)])
      else if s = lit ''{draft}: {"score": 1}'' then
        Inl (External (lit ''Expecting property name enclosed in double quotes: ''
                       @ lit ''line 1 column 2 (char 1)''))
      else if s = lit ''{"score": "high"}'' then
        Inr (JObject [(lit ''score'', JStr (lit ''high''))])
      else if s = lit ''42'' then Inr (JInt 42)
      else if s = lit ''not json at all'' then
        Inl (External (lit ''Expecting value: line 1 column 1 (char 0)''))
      else Inl (External (lit ''not scripted'')))\<close>

definition fake_env :: "(pystr \<Rightarrow> exn + pystr option) \<Rightarrow> env" where
  "fake_env reply =
     \<lparr>pdf_page_texts = (\<lambda>content. Inl (External (lit ''No /Root object! - Is this really a PDF?''))),
      docx_paragraph_texts = (\<lambda>content. Inl (External (lit ''File is not a zip file''))),
      generate_content = (\<lambda>model prompt config. reply prompt),
      json_loads = fake_loads,
      int_of_str = fake_int_of_str,
      repr_of = fake_repr,
      str_lower = map ascii_lower,
      exc_str = fake_exc_str\<rparr>"

text \<open>A generation service that is out of quota for every prompt holding the mark \<open>#\<close>.\<close>

definition quota_reply :: "pystr \<Rightarrow> exn + pystr option" where
  \<open>quota_reply prompt =
     (if of_char CHR ''#'' \<in> set prompt then Inl (External (lit ''quota exceeded''))
      else Inr (Some (lit ''{"score": 85, "missing_skills": "AWS", "remarks": "Strong fit"}'')))\<close>

text \<open>Requests of the examples: a pasted job description and uploaded resumes.\<close>

definition text_request :: "UploadFile list \<Rightarrow> request" where
  "text_request ups =
     \<lparr>jd_mode = lit ''text'', jd_file = None, jd_text = Some (lit ''Python developer''),
      resumes = ups\<rparr>"


section \<open>Properties of the ranking\<close>

lemma sort_reverse_mset: "mset (sort_reverse key xs) = mset xs"
  by (simp add: sort_reverse_def)

lemma sort_reverse_descending: "sorted (rev (map key (sort_reverse key xs)))"
  by (simp add: sort_reverse_def rev_map)

lemma sort_reverse_stable:
  "filter (\<lambda>r. key r = k) (sort_reverse key xs) = filter (\<lambda>r. key r = k) xs"
proof -
  have "filter (\<lambda>r. key r = k) (sort_reverse key xs)
      = rev (filter (\<lambda>r. key r = k) (sort_key key (rev xs)))"
    by (simp add: sort_reverse_def rev_filter)
  also have "\<dots> = rev (filter (\<lambda>r. key r = k) (rev xs))"
    by (simp only: sort_key_stable)
  also have "\<dots> = filter (\<lambda>r. key r = k) xs"
    by (simp add: rev_filter)
  finally show ?thesis .
qed

lemma sort_reverse_Nil: "sort_reverse key [] = []"
  by (simp add: sort_reverse_def)

text \<open>
  C4. For every sequence of score records the ranked output is sorted by score in
  descending order, is a permutation of the input, keeps records of equal score in their
  original relative order, and \<open>best_candidate\<close> is the first element of the sorted
  output; for the empty sequence the output is empty and the best candidate is absent.
\<close>

theorem rank_sorted_permutation_stable:
  "sorted_wrt (\<lambda>a b. score a \<ge> score b) (matches (rank rs))
   \<and> mset (matches (rank rs)) = mset rs
   \<and> filter (\<lambda>r. score r = k) (matches (rank rs)) = filter (\<lambda>r. score r = k) rs
   \<and> best_candidate (rank rs) = (case matches (rank rs) of [] \<Rightarrow> None | r # _ \<Rightarrow> Some r)
   \<and> rank [] = \<lparr>matches = [], best_candidate = None\<rparr>"
proof -
  have "sorted (rev (map score (sort_reverse score rs)))"
    by (rule sort_reverse_descending)
  then have "sorted_wrt (\<lambda>a b. score a \<ge> score b) (sort_reverse score rs)"
    by (simp add: sorted_wrt_rev sorted_wrt_map flip: rev_map)
  then show ?thesis
    by (simp add: rank_def Let_def sort_reverse_mset sort_reverse_stable sort_reverse_Nil)
qed

section \<open>Properties of the response parser\<close>

lemma then_do_Inl: "then_do (Inl e) f = Inl e"
  by (simp add: then_do_def)

lemma then_do_Inr: "then_do (Inr x) f = f x"
  by (simp add: then_do_def)

lemma record_of_Inl: "record_of env fname (Inl e) = fallback_record env fname e"
  by (simp add: record_of_def)

lemma record_of_Inr:
  "record_of env fname (Inr (sc, ms, rm)) =
     \<lparr>filename = fname, score = sc, missing_skills = ms, remarks = rm\<rparr>"
  by (simp add: record_of_def)

lemma greedy_to_close_found:
  assumes "rbrace \<notin> set post"
  shows "greedy_to_close (mid @ rbrace # post) = Some (mid @ [rbrace])"
proof -
  have "dropWhile (\<lambda>c. c \<noteq> rbrace) (rev post @ rbrace # rev mid)
        = dropWhile (\<lambda>c. c \<noteq> rbrace) (rbrace # rev mid)"
    using assms by (intro dropWhile_append2) auto
  then show ?thesis
    by (simp add: greedy_to_close_def)
qed

lemma greedy_to_close_None: "greedy_to_close s = None \<longleftrightarrow> rbrace \<notin> set s"
proof
  assume "greedy_to_close s = None"
  then have "dropWhile (\<lambda>c. c \<noteq> rbrace) (rev s) = []"
    by (simp add: greedy_to_close_def split: list.splits)
  then show "rbrace \<notin> set s"
    by (auto simp: dropWhile_eq_Nil_conv)
next
  assume "rbrace \<notin> set s"
  then have "dropWhile (\<lambda>c. c \<noteq> rbrace) (rev s) = []"
    by (auto simp: dropWhile_eq_Nil_conv)
  then show "greedy_to_close s = None"
    by (simp only: greedy_to_close_def list.case)
qed

lemma greedy_to_close_Some:
  assumes "greedy_to_close s = Some m"
  shows "\<exists>mid post. s = mid @ rbrace # post \<and> rbrace \<notin> set post
           \<and> m = mid @ [rbrace]"
proof -
  from assms have "rbrace \<in> set s"
    using greedy_to_close_None [of s] by auto
  then obtain mid post where s: "s = mid @ rbrace # post" and "rbrace \<notin> set post"
    by (meson split_list_last)
  with assms greedy_to_close_found [of post mid] show ?thesis by auto
qed

lemma re_search_skip:
  "lbrace \<notin> set pre \<Longrightarrow> re_search (pre @ s) = re_search s"
  by (induction pre) auto

lemma re_search_found:
  assumes "lbrace \<notin> set pre" and "rbrace \<notin> set post"
  shows "re_search (pre @ lbrace # mid @ rbrace # post)
         = Some (lbrace # mid @ [rbrace])"
  using assms by (simp add: re_search_skip greedy_to_close_found)

lemma re_search_Some:
  "re_search s = Some g \<Longrightarrow>
     \<exists>pre mid post. s = pre @ g @ post \<and> g = lbrace # mid @ [rbrace]
        \<and> lbrace \<notin> set pre \<and> rbrace \<notin> set post"
proof (induction s)
  case Nil
  then show ?case by simp
next
  case (Cons c cs)
  show ?case
  proof (cases "c = lbrace \<and> greedy_to_close cs \<noteq> None")
    case True
    then obtain m where m: "greedy_to_close cs = Some m" by auto
    with True Cons.prems have g: "g = c # m" by simp
    from greedy_to_close_Some [OF m] obtain mid post where
      "cs = mid @ rbrace # post" "rbrace \<notin> set post" "m = mid @ [rbrace]"
      by blast
    with True g have "c # cs = [] @ g @ post \<and> g = lbrace # mid @ [rbrace]
        \<and> lbrace \<notin> set [] \<and> rbrace \<notin> set post"
      by simp
    then show ?thesis by blast
  next
    case False
    with Cons.prems have rs: "re_search cs = Some g"
      by (auto split: if_splits option.splits)
    have cne: "c \<noteq> lbrace"
    proof
      assume c: "c = lbrace"
      with False have "greedy_to_close cs = None" by simp
      then have "rbrace \<notin> set cs" by (simp add: greedy_to_close_None)
      moreover from Cons.IH [OF rs] have "rbrace \<in> set cs" by auto
      ultimately show False by simp
    qed
    from Cons.IH [OF rs] obtain pre mid post where
      "cs = pre @ g @ post" "g = lbrace # mid @ [rbrace]"
      "lbrace \<notin> set pre" "rbrace \<notin> set post"
      by blast
    with cne have "c # cs = (c # pre) @ g @ post \<and> g = lbrace # mid @ [rbrace]
        \<and> lbrace \<notin> set (c # pre) \<and> rbrace \<notin> set post"
      by simp
    then show ?thesis by blast
  qed
qed

lemma extract_fields_not_object:
  assumes "\<forall>kvs. parsed \<noteq> JObject kvs"
  shows "extract_fields env parsed = Inl (AttributeError parsed)"
  using assms by (cases parsed) (simp_all add: extract_fields_def dict_get_def then_do_def)

lemma dict_get_InrD:
  assumes "dict_get parsed key dflt = Inr v"
  shows "\<exists>kvs. parsed = JObject kvs \<and> v = (case map_of kvs key of None \<Rightarrow> dflt | Some x \<Rightarrow> x)"
  using assms by (cases parsed) (auto simp: dict_get_def)

lemma extract_fields_score:
  assumes "dict_get parsed (lit ''score'') (JInt 0) = Inr sv"
  shows "extract_fields env parsed =
           then_do (py_int env sv) (\<lambda>n.
           then_do (dict_get parsed (lit ''missing_skills'') (JArray [])) (\<lambda>msv.
           then_do (dict_get parsed (lit ''remarks'') (JStr [])) (\<lambda>rv.
             let rm = (if truthy rv then rv else JStr [])
             in (case msv of
                   JArray xs \<Rightarrow> Inr (n, xs, rm)
                 | _ \<Rightarrow> then_do (py_str env msv) (\<lambda>s. Inr (n, [JStr s], rm))))))"
  using assms by (simp add: extract_fields_def then_do_Inr)

lemma extract_fields_int_fails:
  assumes "dict_get parsed (lit ''score'') (JInt 0) = Inr sv" and "py_int env sv = Inl e"
  shows "extract_fields env parsed = Inl e"
  using assms by (simp add: extract_fields_score then_do_Inl)

lemma extract_fields_Inr_score:
  assumes "dict_get parsed (lit ''score'') (JInt 0) = Inr sv"
    and "extract_fields env parsed = Inr (sc, ms, rm)"
  shows "py_int env sv = Inr sc"
proof (cases "py_int env sv")
  case (Inl e)
  with assms show ?thesis by (simp add: extract_fields_int_fails)
next
  case (Inr n)
  from assms(1) obtain kvs where "parsed = JObject kvs" using dict_get_InrD by blast
  with assms Inr show ?thesis
    by (auto simp: extract_fields_score then_do_def dict_get_def Let_def
             split: json.splits sum.splits)
qed

text \<open>
  C1, as the code has it. For every parsed response that is an object, with \<open>sv\<close> the
  value \<open>parsed.get("score", 0)\<close>: if \<open>int(sv)\<close> raises (a non-numeric value), the
  record is the fallback record, whose score is 0; if the fields are extracted, the score
  of the record is \<open>int(sv)\<close> itself, with no clamping to the range 0 to 100; and whenever
  a step raises, the score is 0.
\<close>

theorem score_coerced_or_fallback:
  assumes "dict_get parsed (lit ''score'') (JInt 0) = Inr sv"
  shows "(\<forall>e. py_int env sv = Inl e \<longrightarrow>
            record_of env fname (extract_fields env parsed) = fallback_record env fname e)
       \<and> (\<forall>sc ms rm. extract_fields env parsed = Inr (sc, ms, rm) \<longrightarrow>
            py_int env sv = Inr sc
            \<and> score (record_of env fname (extract_fields env parsed)) = sc)
       \<and> (\<forall>e. extract_fields env parsed = Inl e \<longrightarrow>
            score (record_of env fname (extract_fields env parsed)) = 0)"
proof (intro conjI allI impI)
  fix e assume "py_int env sv = Inl e"
  with assms show "record_of env fname (extract_fields env parsed) = fallback_record env fname e"
    by (simp add: extract_fields_int_fails record_of_Inl)
next
  fix sc ms rm assume ok: "extract_fields env parsed = Inr (sc, ms, rm)"
  with assms show "py_int env sv = Inr sc" by (rule extract_fields_Inr_score)
  from ok show "score (record_of env fname (extract_fields env parsed)) = sc"
    by (simp add: record_of_Inr)
next
  fix e assume "extract_fields env parsed = Inl e"
  then show "score (record_of env fname (extract_fields env parsed)) = 0"
    by (simp add: record_of_Inl fallback_record_def)
qed

text \<open>The parsed response \<open>{"score": "high"}\<close>: the coercion raises and the fallback is used.\<close>

theorem score_coerced_or_fallback_witness:
  "dict_get (JObject [(lit ''score'', JStr (lit ''high''))]) (lit ''score'') (JInt 0)
     = Inr (JStr (lit ''high''))
   \<and> py_int (fake_env (\<lambda>p. Inr None)) (JStr (lit ''high''))
     = Inl (ValueError (JStr (lit ''high'')))
   \<and> record_of (fake_env (\<lambda>p. Inr None)) None
        (extract_fields (fake_env (\<lambda>p. Inr None)) (JObject [(lit ''score'', JStr (lit ''high''))]))
     = fallback_record (fake_env (\<lambda>p. Inr None)) None (ValueError (JStr (lit ''high'')))"
  using score_coerced_or_fallback
    [of "JObject [(lit ''score'', JStr (lit ''high''))]" "JStr (lit ''high'')"
        "fake_env (\<lambda>p. Inr None)" None]
  by (simp add: dict_get_def fake_env_def fake_int_of_str_def)

text \<open>
  C1 as stated fails: for the parsed response \<open>{"score": 150}\<close> the record carries the
  score 150, which is outside the range 0 to 100.
\<close>

theorem score_out_of_range_counterexample:
  "\<not> (score (record_of (fake_env (\<lambda>p. Inr None)) None
          (extract_fields (fake_env (\<lambda>p. Inr None)) (JObject [(lit ''score'', JInt 150)])))
        \<le> 100)"
  by (simp add: extract_fields_def dict_get_def then_do_def record_of_def)

text \<open>
  For an object whose score coerces to an integer \<open>n\<close>, the extraction succeeds with the
  wrapped value or with the default.
\<close>

lemma wrap_succeeds:
  assumes "dict_get (JObject kvs) (lit ''score'') (JInt 0) = Inr sv" and "py_int env sv = Inr n"
  shows "(\<forall>v s. map_of kvs (lit ''missing_skills'') = Some v \<and> (\<forall>xs. v \<noteq> JArray xs)
              \<and> py_str env v = Inr s \<longrightarrow>
            (\<exists>rm. extract_fields env (JObject kvs) = Inr (n, [JStr s], rm))
            \<and> missing_skills (record_of env fname (extract_fields env (JObject kvs))) = [JStr s])
       \<and> (\<forall>s. map_of kvs (lit ''missing_skills'') = Some (JStr s) \<longrightarrow>
            missing_skills (record_of env fname (extract_fields env (JObject kvs))) = [JStr s])
       \<and> (map_of kvs (lit ''missing_skills'') = None \<longrightarrow>
            (\<exists>rm. extract_fields env (JObject kvs) = Inr (n, [], rm))
            \<and> missing_skills (record_of env fname (extract_fields env (JObject kvs))) = [])"
proof -
  have wrap: "\<exists>rm. extract_fields env (JObject kvs) = Inr (n, [JStr s], rm)"
    if "map_of kvs (lit ''missing_skills'') = Some v" "\<forall>xs. v \<noteq> JArray xs" "py_str env v = Inr s"
    for v s
    using that assms
    by (cases v) (simp_all add: extract_fields_score then_do_def dict_get_def Let_def)
  have absent: "\<exists>rm. extract_fields env (JObject kvs) = Inr (n, [], rm)"
    if "map_of kvs (lit ''missing_skills'') = None"
    using that assms
    by (simp add: extract_fields_score then_do_def dict_get_def Let_def)
  show ?thesis
  proof (intro conjI allI impI)
    fix v s
    assume h: "map_of kvs (lit ''missing_skills'') = Some v \<and> (\<forall>xs. v \<noteq> JArray xs)
                 \<and> py_str env v = Inr s"
    then obtain rm where e: "extract_fields env (JObject kvs) = Inr (n, [JStr s], rm)"
      using wrap by blast
    then show "\<exists>rm. extract_fields env (JObject kvs) = Inr (n, [JStr s], rm)" by blast
    from e show "missing_skills (record_of env fname (extract_fields env (JObject kvs))) = [JStr s]"
      by (simp add: record_of_Inr)
  next
    fix s
    assume "map_of kvs (lit ''missing_skills'') = Some (JStr s)"
    then obtain rm where "extract_fields env (JObject kvs) = Inr (n, [JStr s], rm)"
      using wrap [of "JStr s" s] by auto
    then show "missing_skills (record_of env fname (extract_fields env (JObject kvs))) = [JStr s]"
      by (simp add: record_of_Inr)
  next
    assume "map_of kvs (lit ''missing_skills'') = None"
    then obtain rm where e: "extract_fields env (JObject kvs) = Inr (n, [], rm)"
      using absent by blast
    then show "\<exists>rm. extract_fields env (JObject kvs) = Inr (n, [], rm)" by blast
    from e show "missing_skills (record_of env fname (extract_fields env (JObject kvs))) = []"
      by (simp add: record_of_Inr)
  qed
qed




text \<open>
  C8, as the code has it. For every parsed response that is an object: a parsed list is
  carried into the record as it is, whatever its length and whatever its elements; any
  other value gives a list of at most one element, which is a string; and the fallback
  record has the empty list.
\<close>

theorem missing_skills_is_parsed_list_or_wrapped:
  "(\<forall>xs sc ms rm. map_of kvs (lit ''missing_skills'') = Some (JArray xs)
        \<and> extract_fields env (JObject kvs) = Inr (sc, ms, rm) \<longrightarrow>
      missing_skills (record_of env fname (extract_fields env (JObject kvs))) = xs)
   \<and> ((\<forall>xs. map_of kvs (lit ''missing_skills'') \<noteq> Some (JArray xs)) \<longrightarrow>
      length (missing_skills (record_of env fname (extract_fields env (JObject kvs)))) \<le> 1
      \<and> (\<forall>x \<in> set (missing_skills (record_of env fname (extract_fields env (JObject kvs)))).
            \<exists>s. x = JStr s))
   \<and> (\<forall>e. extract_fields env (JObject kvs) = Inl e \<longrightarrow>
      missing_skills (record_of env fname (extract_fields env (JObject kvs))) = [])"
proof -
  have kept: "missing_skills (record_of env fname (extract_fields env (JObject kvs))) = xs"
    if h: "map_of kvs (lit ''missing_skills'') = Some (JArray xs)
             \<and> extract_fields env (JObject kvs) = Inr (sc, ms, rm)"
    for xs sc ms rm
  proof -
    from h have "ms = xs"
      by (auto simp: extract_fields_def dict_get_def then_do_def Let_def split: sum.splits)
    with h show ?thesis by (simp add: record_of_Inr)
  qed
  have wrapped:
    "length (missing_skills (record_of env fname (extract_fields env (JObject kvs)))) \<le> 1
      \<and> (\<forall>x \<in> set (missing_skills (record_of env fname (extract_fields env (JObject kvs)))).
            \<exists>s. x = JStr s)"
    if h: "\<forall>xs. map_of kvs (lit ''missing_skills'') \<noteq> Some (JArray xs)"
  proof (cases "extract_fields env (JObject kvs)")
    case (Inl e)
    then show ?thesis by (simp add: record_of_Inl fallback_record_def)
  next
    case (Inr t)
    obtain sc ms rm where t: "t = (sc, ms, rm)" by (cases t) auto
    from Inr t h have "ms = [] \<or> (\<exists>s. ms = [JStr s])"
      by (auto simp: extract_fields_def dict_get_def then_do_def Let_def
               split: sum.splits option.splits json.splits)
    with Inr t show ?thesis by (auto simp: record_of_Inr)
  qed
  have failed: "missing_skills (record_of env fname (extract_fields env (JObject kvs))) = []"
    if "extract_fields env (JObject kvs) = Inl e" for e
    using that by (simp add: record_of_Inl fallback_record_def)
  from kept wrapped failed show ?thesis by blast
qed

text \<open>The parsed response \<open>{"score": 85, "missing_skills": ["AWS", 3]}\<close>.\<close>

theorem missing_skills_is_parsed_list_or_wrapped_witness:
  "missing_skills (record_of (fake_env (\<lambda>p. Inr None)) None
     (extract_fields (fake_env (\<lambda>p. Inr None))
        (JObject [(lit ''score'', JInt 85),
                  (lit ''missing_skills'', JArray [JStr (lit ''AWS''), JInt 3])])))
   = [JStr (lit ''AWS''), JInt 3]"
  using missing_skills_is_parsed_list_or_wrapped
    [of "[(lit ''score'', JInt 85), (lit ''missing_skills'', JArray [JStr (lit ''AWS''), JInt 3])]"
        "fake_env (\<lambda>p. Inr None)" None]
  by (simp add: extract_fields_def dict_get_def then_do_def)

text \<open>
  C8 as stated fails: for the parsed response whose \<open>missing_skills\<close> is a list of 21
  numbers the record carries all 21 elements, none of them a string.
\<close>

theorem missing_skills_bound_counterexample:
  "length (missing_skills (record_of (fake_env (\<lambda>p. Inr None)) None
     (extract_fields (fake_env (\<lambda>p. Inr None))
        (JObject [(lit ''score'', JInt 50),
                  (lit ''missing_skills'', JArray (replicate 21 (JInt 7)))])))) = 21
   \<and> JInt 7 \<in> set (missing_skills (record_of (fake_env (\<lambda>p. Inr None)) None
     (extract_fields (fake_env (\<lambda>p. Inr None))
        (JObject [(lit ''score'', JInt 50),
                  (lit ''missing_skills'', JArray (replicate 21 (JInt 7)))]))))"
  by (simp add: extract_fields_def dict_get_def then_do_def record_of_def)

lemma parse_fields_Inl:
  "parse_response env resp = Inl e \<Longrightarrow> parse_fields env resp = Inl e"
  by (simp add: parse_fields_def then_do_Inl)

lemma parse_fields_Inr:
  "parse_response env resp = Inr parsed \<Longrightarrow> parse_fields env resp = extract_fields env parsed"
  by (simp add: parse_fields_def then_do_Inr)

lemma parse_response_no_match:
  "re_search resp = None \<Longrightarrow> parse_response env resp = json_loads env resp"
  by (simp add: parse_response_def)

lemma parse_fields_no_match_fails:
  assumes "objects_need_braces env" and "re_search resp = None"
  shows "\<exists>e. parse_fields env resp = Inl e"
proof (cases "json_loads env resp")
  case (Inl e)
  with assms(2) show ?thesis
    by (simp add: parse_response_no_match parse_fields_Inl)
next
  case (Inr parsed)
  with assms have "\<forall>kvs. parsed \<noteq> JObject kvs"
    by (auto simp: objects_need_braces_def)
  then have "extract_fields env parsed = Inl (AttributeError parsed)"
    by (rule extract_fields_not_object)
  with Inr assms(2) show ?thesis
    by (simp add: parse_response_no_match parse_fields_Inr)
qed

lemma fallback_record_fields:
  "score (fallback_record env fname e) = 0"
  "missing_skills (fallback_record env fname e) = []"
  "remarks (fallback_record env fname e) = JStr (lit ''Scoring failed: '' @ str_of_exc env e)"
  "filename (fallback_record env fname e) = fname"
  by (simp_all add: fallback_record_def)

text \<open>
  C2. For every raw response text the parser yields a record: either the fields were
  extracted and the record holds them, or a step raised and the record is the fallback
  record. The fallback follows malformed JSON (\<open>json.loads\<close> raises), a failure while the
  fields are extracted (a parsed value without \<open>get\<close>, a score that does not coerce), and
  a text without any brace-delimited substring. The fallback record has score 0, no
  missing skills, and the non-empty remark \<open>Scoring failed: \<close> followed by the text of
  the exception.
\<close>

theorem parser_yields_record_or_fallback:
  "((\<exists>sc ms rm. parse_fields env resp = Inr (sc, ms, rm)
        \<and> record_of env fname (parse_fields env resp)
            = \<lparr>filename = fname, score = sc, missing_skills = ms, remarks = rm\<rparr>)
     \<or> (\<exists>e. parse_fields env resp = Inl e
        \<and> record_of env fname (parse_fields env resp) = fallback_record env fname e))
   \<and> (\<forall>e. parse_response env resp = Inl e \<longrightarrow>
         record_of env fname (parse_fields env resp) = fallback_record env fname e)
   \<and> (\<forall>parsed e. parse_response env resp = Inr parsed \<and> extract_fields env parsed = Inl e \<longrightarrow>
         record_of env fname (parse_fields env resp) = fallback_record env fname e)
   \<and> (objects_need_braces env \<and> re_search resp = None \<longrightarrow>
         (\<exists>e. record_of env fname (parse_fields env resp) = fallback_record env fname e))
   \<and> (\<forall>e. score (fallback_record env fname e) = 0
         \<and> missing_skills (fallback_record env fname e) = []
         \<and> remarks (fallback_record env fname e)
             = JStr (lit ''Scoring failed: '' @ str_of_exc env e)
         \<and> lit ''Scoring failed: '' @ str_of_exc env e \<noteq> [])"
proof -
  have total: "(\<exists>sc ms rm. parse_fields env resp = Inr (sc, ms, rm)
        \<and> record_of env fname (parse_fields env resp)
            = \<lparr>filename = fname, score = sc, missing_skills = ms, remarks = rm\<rparr>)
     \<or> (\<exists>e. parse_fields env resp = Inl e
        \<and> record_of env fname (parse_fields env resp) = fallback_record env fname e)"
  proof (cases "parse_fields env resp")
    case (Inl e)
    then show ?thesis by (simp add: record_of_Inl)
  next
    case (Inr t)
    then show ?thesis by (cases t) (simp add: record_of_Inr)
  qed
  have malformed: "record_of env fname (parse_fields env resp) = fallback_record env fname e"
    if "parse_response env resp = Inl e" for e
    using that by (simp add: parse_fields_Inl record_of_Inl)
  have coercion: "record_of env fname (parse_fields env resp) = fallback_record env fname e"
    if "parse_response env resp = Inr parsed \<and> extract_fields env parsed = Inl e" for parsed e
    using that by (simp add: parse_fields_Inr record_of_Inl)
  have no_json: "\<exists>e. record_of env fname (parse_fields env resp) = fallback_record env fname e"
    if "objects_need_braces env \<and> re_search resp = None"
  proof -
    from that obtain e where "parse_fields env resp = Inl e"
      using parse_fields_no_match_fails by blast
    then show ?thesis by (auto simp: record_of_Inl)
  qed
  have fb: "score (fallback_record env fname e) = 0
         \<and> missing_skills (fallback_record env fname e) = []
         \<and> remarks (fallback_record env fname e)
             = JStr (lit ''Scoring failed: '' @ str_of_exc env e)
         \<and> lit ''Scoring failed: '' @ str_of_exc env e \<noteq> []" for e
    by (simp add: fallback_record_fields)
  from total malformed coercion no_json fb show ?thesis by blast
qed

lemma fake_loads_braced: "objects_need_braces (fake_env reply)"
  unfolding objects_need_braces_def
proof (intro allI impI)
  fix s kvs
  assume "json_loads (fake_env reply) s = Inr (JObject kvs)"
  then have "fake_loads s = Inr (JObject kvs)" by (simp add: fake_env_def)
  then show "re_search s \<noteq> None"
    by (auto simp: fake_loads_def lbrace_def rbrace_def greedy_to_close_def split: if_splits)
qed

text \<open>The response \<open>not json at all\<close>.\<close>

theorem parser_yields_record_or_fallback_witness:
  "objects_need_braces (fake_env (\<lambda>p. Inr None))
   \<and> re_search (lit ''not json at all'') = None
   \<and> record_of (fake_env (\<lambda>p. Inr None)) None
        (parse_fields (fake_env (\<lambda>p. Inr None)) (lit ''not json at all''))
      = fallback_record (fake_env (\<lambda>p. Inr None)) None
          (External (lit ''Expecting value: line 1 column 1 (char 0)''))"
proof -
  have b: "objects_need_braces (fake_env (\<lambda>p. Inr None))" by (rule fake_loads_braced)
  have n: "re_search (lit ''not json at all'') = None" by (simp add: lbrace_def)
  have l: "parse_response (fake_env (\<lambda>p. Inr None)) (lit ''not json at all'')
           = Inl (External (lit ''Expecting value: line 1 column 1 (char 0)''))"
    by (subst parse_response_no_match [OF n]) (simp add: fake_env_def fake_loads_def)
  from parser_yields_record_or_fallback
         [of "fake_env (\<lambda>p. Inr None)" "lit ''not json at all''" None] l
  have "record_of (fake_env (\<lambda>p. Inr None)) None
          (parse_fields (fake_env (\<lambda>p. Inr None)) (lit ''not json at all''))
        = fallback_record (fake_env (\<lambda>p. Inr None)) None
            (External (lit ''Expecting value: line 1 column 1 (char 0)''))"
    by blast
  with b n show ?thesis by blast
qed

text \<open>
  C3, as the code has it. When the text before the object holds no opening brace and the
  text after it no closing brace, the search yields exactly the object, from its opening
  to its closing brace, and the parser hands that substring to \<open>json.loads\<close> and extracts
  the fields from what it returns. In general a match runs from the first opening brace
  of the text to its last closing brace, and that substring is what is parsed; when there
  is no match the whole text is parsed.
\<close>

theorem greedy_match_locates_object:
  "(lbrace \<notin> set pre \<and> rbrace \<notin> set post \<longrightarrow>
       re_search (pre @ lbrace # mid @ rbrace # post) = Some (lbrace # mid @ [rbrace])
     \<and> parse_response env (pre @ lbrace # mid @ rbrace # post)
         = json_loads env (lbrace # mid @ [rbrace])
     \<and> parse_fields env (pre @ lbrace # mid @ rbrace # post)
         = then_do (json_loads env (lbrace # mid @ [rbrace])) (extract_fields env))
   \<and> (\<forall>g. re_search resp = Some g \<longrightarrow>
         (\<exists>pre' mid' post'. resp = pre' @ g @ post' \<and> g = lbrace # mid' @ [rbrace]
             \<and> lbrace \<notin> set pre' \<and> rbrace \<notin> set post')
         \<and> parse_response env resp = json_loads env g)
   \<and> (re_search resp = None \<longrightarrow> parse_response env resp = json_loads env resp)"
proof -
  have located:
    "re_search (pre @ lbrace # mid @ rbrace # post) = Some (lbrace # mid @ [rbrace])
     \<and> parse_response env (pre @ lbrace # mid @ rbrace # post)
         = json_loads env (lbrace # mid @ [rbrace])
     \<and> parse_fields env (pre @ lbrace # mid @ rbrace # post)
         = then_do (json_loads env (lbrace # mid @ [rbrace])) (extract_fields env)"
    if "lbrace \<notin> set pre \<and> rbrace \<notin> set post"
  proof -
    from that have m: "re_search (pre @ lbrace # mid @ rbrace # post) = Some (lbrace # mid @ [rbrace])"
      by (simp add: re_search_found)
    then have p: "parse_response env (pre @ lbrace # mid @ rbrace # post)
         = json_loads env (lbrace # mid @ [rbrace])"
      by (simp add: parse_response_def)
    then have "parse_fields env (pre @ lbrace # mid @ rbrace # post)
         = then_do (json_loads env (lbrace # mid @ [rbrace])) (extract_fields env)"
      by (simp add: parse_fields_def)
    with m p show ?thesis by blast
  qed
  have shape: "(\<exists>pre' mid' post'. resp = pre' @ g @ post' \<and> g = lbrace # mid' @ [rbrace]
             \<and> lbrace \<notin> set pre' \<and> rbrace \<notin> set post')
         \<and> parse_response env resp = json_loads env g"
    if "re_search resp = Some g" for g
    using that re_search_Some [OF that] by (simp add: parse_response_def)
  have whole: "parse_response env resp = json_loads env resp" if "re_search resp = None"
    using that by (rule parse_response_no_match)
  from located shape whole show ?thesis by blast
qed

text \<open>
  The response \<open>Sure, here you go:\<close>, a line break, and the object
  \<open>{"score": 85, "missing_skills": "AWS", "remarks": "Strong fit"}\<close>.
\<close>

theorem greedy_match_locates_object_witness:
  \<open>parse_fields (fake_env (\<lambda>p. Inr None))
     (lit ''Sure, here you go:\<newline>{"score": 85, "missing_skills": "AWS", "remarks": "Strong fit"}'')
   = Inr (85, [JStr (lit ''AWS'')], JStr (lit ''Strong fit''))\<close>
  using greedy_match_locates_object
    [of \<open>lit ''Sure, here you go:\<newline>''\<close> \<open>[]\<close>
        \<open>lit ''"score": 85, "missing_skills": "AWS", "remarks": "Strong fit"''\<close>
        \<open>fake_env (\<lambda>p. Inr None)\<close> \<open>[]\<close>]
  by (simp add: lbrace_def rbrace_def fake_env_def fake_loads_def then_do_def
                extract_fields_def dict_get_def)

text \<open>
  C3 as stated fails: the text \<open>Note {draft}: {"score": 1}\<close> contains the valid object
  \<open>{"score": 1}\<close> after leading prose, but the match starts at the first opening brace,
  the substring \<open>{draft}: {"score": 1}\<close> is not JSON, and the fallback record results.
\<close>

theorem greedy_match_counterexample:
  \<open>json_loads (fake_env (\<lambda>p. Inr None)) (lit ''{"score": 1}'')
     = Inr (JObject [(lit ''score'', JInt 1)])
   \<and> re_search (lit ''Note {draft}: {"score": 1}'') = Some (lit ''{draft}: {"score": 1}'')
   \<and> record_of (fake_env (\<lambda>p. Inr None)) None
        (parse_fields (fake_env (\<lambda>p. Inr None)) (lit ''Note {draft}: {"score": 1}''))
     = fallback_record (fake_env (\<lambda>p. Inr None)) None
         (External (lit ''Expecting property name enclosed in double quotes: ''
                    @ lit ''line 1 column 2 (char 1)''))\<close>
  by (simp add: lbrace_def rbrace_def greedy_to_close_def parse_fields_def parse_response_def
                then_do_def fake_env_def fake_loads_def record_of_def)

section \<open>Properties of text extraction\<close>

lemma decode_ascii: "\<forall>b \<in> set bs. b < 0x80 \<Longrightarrow> decode_utf8_ignore bs = map unat bs"
  by (induction bs) (simp_all add: decode_one_def)

lemma byte_eq_239: "unat (b :: 8 word) = 239 \<Longrightarrow> b = 0xEF"
  by (simp add: word_unat_eq_iff)

lemma byte_eq_191: "unat (b :: 8 word) = 191 \<Longrightarrow> b = 0xBF"
  by (simp add: word_unat_eq_iff)

lemma byte_eq_189: "unat (b :: 8 word) = 189 \<Longrightarrow> b = 0xBD"
  by (simp add: word_unat_eq_iff)

lemma three_byte_marker:
  fixes a c d :: nat
  assumes v: "a * 4096 + c * 64 + d = 65533" and "a \<le> 15" "c \<le> 63" "d \<le> 63"
  shows "a = 15 \<and> c = 63 \<and> d = 61"
proof -
  have a: "a = 15"
  proof (rule ccontr)
    assume "a \<noteq> 15"
    with assms have "a \<le> 14" by simp
    then have "a * 4096 \<le> 14 * 4096" by (rule mult_le_mono1)
    with assms show False by simp
  qed
  with v have v2: "c * 64 + d = 4093" by simp
  have c: "c = 63"
  proof (rule ccontr)
    assume "c \<noteq> 63"
    with assms have "c \<le> 62" by simp
    then have "c * 64 \<le> 62 * 64" by (rule mult_le_mono1)
    with assms v2 show False by simp
  qed
  with v2 a show ?thesis by simp
qed

lemma two_byte_small:
  fixes a c :: nat
  assumes "a * 64 + c = 65533" and "a \<le> 31" "c \<le> 63"
  shows False
proof -
  from assms have "a * 64 \<le> 31 * 64" by (intro mult_le_mono1)
  with assms show False by simp
qed

lemma four_byte_large:
  fixes a c d e :: nat
  assumes "a * 262144 + c * 4096 + d * 64 + e = 65533" and "1 \<le> a \<or> 16 \<le> c"
  shows False
proof -
  from assms(2) have "1 * 262144 \<le> a * 262144 \<or> 16 * 4096 \<le> c * 4096"
    by (auto intro: mult_le_mono1)
  with assms(1) show False by auto
qed

lemma sub_bounds:
  fixes n :: nat
  shows "lo \<le> n \<Longrightarrow> n \<le> hi \<Longrightarrow> n - lo \<le> hi - lo \<and> n = (n - lo) + lo"
  by arith

lemma sub_lower:
  fixes n :: nat
  shows "lo + d \<le> n \<Longrightarrow> d \<le> n - lo"
  by arith

lemma is_cont_bits: "is_cont b \<Longrightarrow> cont_bits b \<le> 63 \<and> unat b = cont_bits b + 128"
  using sub_bounds [of 128 "unat b" 191]
  by (simp add: is_cont_def cont_bits_def word_le_nat_alt)

lemma second_ok_E0_EF:
  assumes "second_ok b b1" and "0xE0 \<le> b \<and> b \<le> 0xEF"
  shows "cont_bits b1 \<le> 63 \<and> unat b1 = cont_bits b1 + 128"
proof -
  from assms have "128 \<le> unat b1 \<and> unat b1 \<le> 191"
    by (auto simp: second_ok_def is_cont_def word_le_nat_alt split: if_splits)
  then show ?thesis
    using sub_bounds [of 128 "unat b1" 191] by (simp add: cont_bits_def)
qed

lemma second_ok_F0:
  assumes "second_ok 0xF0 b1"
  shows "16 \<le> cont_bits b1"
proof -
  from assms have "128 + 16 \<le> unat b1"
    by (simp add: second_ok_def word_le_nat_alt)
  then show ?thesis
    unfolding cont_bits_def by (rule sub_lower)
qed

lemma decode_one_marker:
  assumes "decode_one b rest = Some (0xFFFD, k)"
  shows "b = 0xEF \<and> k = 2 \<and> (\<exists>r. rest = 0xBF # 0xBD # r)"
proof -
  consider (one) "b < 0x80"
    | (two) "\<not> b < 0x80" "0xC2 \<le> b \<and> b \<le> 0xDF"
    | (three) "\<not> b < 0x80" "\<not> (0xC2 \<le> b \<and> b \<le> 0xDF)" "0xE0 \<le> b \<and> b \<le> 0xEF"
    | (four) "\<not> b < 0x80" "\<not> (0xC2 \<le> b \<and> b \<le> 0xDF)" "\<not> (0xE0 \<le> b \<and> b \<le> 0xEF)"
    by blast
  then show ?thesis
  proof cases
    case one
    with assms have "unat b = 0xFFFD" by (simp add: decode_one_def)
    moreover from one have "unat b < 128" by (simp add: word_less_nat_alt)
    ultimately show ?thesis by simp
  next
    case two
    with assms obtain b1 r where "rest = b1 # r" and c: "is_cont b1"
      and v: "(unat b - 0xC0) * 64 + cont_bits b1 = 0xFFFD"
      by (simp add: decode_one_def split: list.splits if_splits)
    from two have "192 \<le> unat b \<and> unat b \<le> 223" by (simp add: word_le_nat_alt)
    then have "unat b - 192 \<le> 31" using sub_bounds [of 192 "unat b" 223] by simp
    moreover from c have "cont_bits b1 \<le> 63" by (simp add: is_cont_bits)
    ultimately have False using v two_byte_small [of "unat b - 192" "cont_bits b1"] by simp
    then show ?thesis ..
  next
    case three
    with assms obtain b1 b2 r where r: "rest = b1 # b2 # r" and k: "k = 2"
      and c1: "second_ok b b1" and c2: "is_cont b2"
      and v: "(unat b - 0xE0) * 4096 + cont_bits b1 * 64 + cont_bits b2 = 0xFFFD"
      by (simp add: decode_one_def split: list.splits if_splits)
    from three have "224 \<le> unat b \<and> unat b \<le> 239" by (simp add: word_le_nat_alt)
    then have lead: "unat b - 224 \<le> 15 \<and> unat b = (unat b - 224) + 224"
      using sub_bounds [of 224 "unat b" 239] by simp
    from c1 three have s1: "cont_bits b1 \<le> 63 \<and> unat b1 = cont_bits b1 + 128"
      by (simp add: second_ok_E0_EF)
    from c2 have s2: "cont_bits b2 \<le> 63 \<and> unat b2 = cont_bits b2 + 128"
      by (rule is_cont_bits)
    from v lead s1 s2 have "unat b - 224 = 15 \<and> cont_bits b1 = 63 \<and> cont_bits b2 = 61"
      using three_byte_marker [of "unat b - 224" "cont_bits b1" "cont_bits b2"] by simp
    with lead s1 s2 have "unat b = 239 \<and> unat b1 = 191 \<and> unat b2 = 189" by simp
    then have "b = 0xEF \<and> b1 = 0xBF \<and> b2 = 0xBD"
      by (simp add: byte_eq_239 byte_eq_191 byte_eq_189)
    with r k show ?thesis by simp
  next
    case four
    with assms obtain b1 b2 b3 r where "rest = b1 # b2 # b3 # r"
      and f: "0xF0 \<le> b \<and> b \<le> 0xF4"
      and c1: "second_ok b b1"
      and v: "(unat b - 0xF0) * 262144 + cont_bits b1 * 4096 + cont_bits b2 * 64
                + cont_bits b3 = 0xFFFD"
      by (simp add: decode_one_def split: list.splits if_splits)
    have "1 \<le> unat b - 240 \<or> 16 \<le> cont_bits b1"
    proof (cases "b = 0xF0")
      case True
      with c1 show ?thesis by (simp add: second_ok_F0)
    next
      case False
      then have "unat b \<noteq> 240" by (auto simp: word_unat_eq_iff)
      moreover from f have "240 \<le> unat b" by (simp add: word_le_nat_alt)
      ultimately have "240 + 1 \<le> unat b" by simp
      then have "1 \<le> unat b - 240" by (rule sub_lower)
      then show ?thesis ..
    qed
    then have False
      using v four_byte_large [of "unat b - 240" "cont_bits b1" "cont_bits b2" "cont_bits b3"]
      by simp
    then show ?thesis ..
  qed
qed

lemma marker_only_from_input:
  "0xFFFD \<in> set (decode_utf8_ignore bs) \<Longrightarrow> \<exists>pre post. bs = pre @ [0xEF, 0xBF, 0xBD] @ post"
proof (induction "length bs" arbitrary: bs rule: less_induct)
  case less
  show ?case
  proof (cases bs)
    case Nil
    with less.prems show ?thesis by simp
  next
    case (Cons b rest)
    show ?thesis
    proof (cases "decode_one b rest")
      case None
      with less.prems Cons have "0xFFFD \<in> set (decode_utf8_ignore rest)" by simp
      moreover from Cons have "length rest < length bs" by simp
      ultimately obtain pre post where "rest = pre @ [0xEF, 0xBF, 0xBD] @ post"
        using less.hyps by blast
      with Cons have "bs = (b # pre) @ [0xEF, 0xBF, 0xBD] @ post" by simp
      then show ?thesis by blast
    next
      case (Some a)
      obtain cp k where a: "a = (cp, k)" by (cases a) auto
      show ?thesis
      proof (cases "cp = 0xFFFD")
        case True
        with Some a have "b = 0xEF \<and> k = 2 \<and> (\<exists>r. rest = 0xBF # 0xBD # r)"
          using decode_one_marker by simp
        with Cons obtain r where "bs = [] @ [0xEF, 0xBF, 0xBD] @ r" by auto
        then show ?thesis by blast
      next
        case False
        with less.prems Cons Some a have "0xFFFD \<in> set (decode_utf8_ignore (drop k rest))"
          by simp
        moreover from Cons have "length (drop k rest) < length bs" by simp
        ultimately obtain pre post where "drop k rest = pre @ [0xEF, 0xBF, 0xBD] @ post"
          using less.hyps by blast
        then have "take k rest @ drop k rest = take k rest @ pre @ [0xEF, 0xBF, 0xBD] @ post"
          by simp
        then have "rest = (take k rest @ pre) @ [0xEF, 0xBF, 0xBD] @ post"
          by simp
        with Cons have "bs = (b # take k rest @ pre) @ [0xEF, 0xBF, 0xBD] @ post" by simp
        then show ?thesis by blast
      qed
    qed
  qed
qed

lemma read_upload_text_plain:
  assumes "fname = str_lower env (case up_filename up of None \<Rightarrow> [] | Some n \<Rightarrow> n)"
    and "\<not> endswith fname (lit ''.pdf'')"
    and "\<not> endswith fname (lit ''.docx'')"
    and "\<not> endswith fname (lit ''.doc'')"
  shows "read_upload_text env up = Inr (decode_utf8_ignore (file_content up))"
  using assms unfolding read_upload_text_def Let_def by simp

text \<open>
  C6, as the code has it. For every upload whose lower-cased filename ends in none of
  \<open>.pdf\<close>, \<open>.docx\<close> and \<open>.doc\<close>, the extractor returns the decoded bytes and never
  raises. The decoder leaves out every byte that starts no well-formed sequence, keeps
  ASCII text as it is, and puts nothing in the place of what it leaves out: the
  replacement character U+FFFD appears in the text only where the bytes hold its own
  encoding \<open>EF BF BD\<close>.
\<close>

theorem plain_text_decoded_ignoring_errors:
  "(fname = str_lower env (case up_filename up of None \<Rightarrow> [] | Some n \<Rightarrow> n)
      \<and> \<not> endswith fname (lit ''.pdf'') \<and> \<not> endswith fname (lit ''.docx'')
      \<and> \<not> endswith fname (lit ''.doc'') \<longrightarrow>
      read_upload_text env up = Inr (decode_utf8_ignore (file_content up)))
   \<and> (decode_one b bs = None \<longrightarrow> decode_utf8_ignore (b # bs) = decode_utf8_ignore bs)
   \<and> ((\<forall>b \<in> set bs. b < 0x80) \<longrightarrow> decode_utf8_ignore bs = map unat bs)
   \<and> (0xFFFD \<in> set (decode_utf8_ignore bs) \<longrightarrow>
        (\<exists>pre post. bs = pre @ [0xEF, 0xBF, 0xBD] @ post))"
proof -
  have skip: "decode_one b bs = None \<longrightarrow> decode_utf8_ignore (b # bs) = decode_utf8_ignore bs"
    by simp
  from read_upload_text_plain [of fname env up] decode_ascii [of bs]
    marker_only_from_input [of bs] skip
  show ?thesis by blast
qed

text \<open>The upload \<open>cv.TXT\<close> with the bytes \<open>C3 A9 FF 41\<close>: the text is U+00E9 and \<open>A\<close>.\<close>

theorem plain_text_decoded_ignoring_errors_witness:
  "read_upload_text (fake_env (\<lambda>p. Inr None))
     \<lparr>up_filename = Some (lit ''cv.TXT''), file_content = [0xC3, 0xA9, 0xFF, 0x41]\<rparr>
   = Inr [0xE9, 0x41]"
  using plain_text_decoded_ignoring_errors
    [of "lit ''cv.txt''" "fake_env (\<lambda>p. Inr None)"
        "\<lparr>up_filename = Some (lit ''cv.TXT''), file_content = [0xC3, 0xA9, 0xFF, 0x41]\<rparr>"
        "0xFF" "[0x41]"]
  by (simp add: fake_env_def ascii_lower_def endswith_def decode_one_def is_cont_def
                cont_bits_def)

text \<open>
  C6 as stated fails: in the upload \<open>cv.txt\<close> with the bytes \<open>FF 41\<close> the byte \<open>FF\<close>
  cannot be decoded, and the text returned is \<open>A\<close>, without a replacement marker.
\<close>

theorem replacement_marker_counterexample:
  "decode_one 0xFF [0x41] = None
   \<and> read_upload_text (fake_env (\<lambda>p. Inr None))
        \<lparr>up_filename = Some (lit ''cv.txt''), file_content = [0xFF, 0x41]\<rparr>
     = Inr (lit ''A'')
   \<and> 0xFFFD \<notin> set (lit ''A'')"
  by (simp add: read_upload_text_def fake_env_def ascii_lower_def endswith_def decode_one_def)

section \<open>Properties of the endpoint\<close>



lemma score_all_read_fails:
  assumes "up \<in> set ups" and "read_upload_text env up = Inl e"
  shows "\<exists>e'. score_all env jd ups acc = Inl e'"
  using assms
proof (induction ups arbitrary: acc)
  case Nil
  then show ?case by simp
next
  case (Cons u ups)
  show ?case
  proof (cases "read_upload_text env u")
    case (Inl e')
    then show ?thesis by simp
  next
    case (Inr t)
    with Cons.prems have "up \<in> set ups" by auto
    with Cons.IH Cons.prems(2) Inr show ?thesis by simp
  qed
qed

lemma match_resumes_valid:
  assumes "resolve_jd env req = Inr jd" and "resumes req \<noteq> []" and "length (resumes req) \<le> 20"
  shows "match_resumes env req
         = then_do (score_all env jd (resumes req) []) (\<lambda>results. Inr (rank results))"
  using assms by (simp add: match_resumes_def then_do_Inr)




lemma read_failure_aborts_batch:
  assumes "resolve_jd env req = Inr jd"
    and "resumes req \<noteq> []" and "length (resumes req) \<le> 20"
    and "up \<in> set (resumes req)" and "read_upload_text env up = Inl e"
  shows "\<exists>e'. match_resumes env req = Inl e'"
proof -
  from assms(4,5) obtain e' where "score_all env jd (resumes req) [] = Inl e'"
    using score_all_read_fails by blast
  with assms(1-3) show ?thesis
    by (simp add: match_resumes_valid then_do_Inl)
qed

text \<open>
  C5 does not hold of the code. A batch of two resumes, the first a file named
  \<open>broken.pdf\<close> that the PDF reader rejects, the second a readable text file: the
  exception of the reader leaves \<open>match_resumes\<close>, and no record is returned for either
  resume.
\<close>

theorem extraction_failure_aborts_batch_example:
  "match_resumes (fake_env quota_reply)
     (text_request [\<lparr>up_filename = Some (lit ''broken.pdf''), file_content = [0x6E, 0x6F]\<rparr>,
                    \<lparr>up_filename = Some (lit ''b.txt''), file_content = [0x42]\<rparr>])
   = Inl (External (lit ''No /Root object! - Is this really a PDF?''))"
  by (simp add: match_resumes_def resolve_jd_def text_request_def strip_def is_space_def
                then_do_def read_upload_text_def fake_env_def ascii_lower_def endswith_def)







end
